theory Spec2Isabelle
  imports Main
begin

section \<open>The authenticated request pipeline of the LMS frontend\<close>

text \<open>
  The development embeds \<^verbatim>\<open>useAxios\<close> (frontend/src/utils/useAxios.js): the
  construction of an axios instance from the two token cookies, and the request
  interceptor registered on it. Everything the JavaScript does beyond returning a value
  is explicit: the cookie jar, the clock, the backend's refresh endpoint, the trace of
  calls made to that endpoint and the console are fields of a \<open>world\<close> that is passed
  in and returned; a rejected promise is the \<open>Inl\<close> of a sum.
\<close>

subsection \<open>Data\<close>

text \<open>The interface \<^verbatim>\<open>DecodedToken\<close> of the frontend's type declarations.\<close>

record DecodedToken =
  token_type :: string
  exp :: int
  iat :: int
  jti :: string
  user_id :: int
  full_name :: string
  email :: string
  username :: string

text \<open>The interface \<^verbatim>\<open>TokenResponse\<close>: what the refresh endpoint answers.\<close>

record TokenResponse =
  access :: string
  refresh :: string

text \<open>
  What an awaited call can throw. The refresh call fails on a network error, on a
  refresh token the backend rejects, or on any other response outside 2xx.
\<close>

datatype js_error = NetworkError | InvalidRefreshToken | HttpStatus nat

text \<open>
  The request configuration the interceptor receives and returns. The callers in the
  repository issue \<^verbatim>\<open>useAxios().get(url)\<close> and \<^verbatim>\<open>useAxios().post(url, formdata)\<close>,
  with no header configuration of their own.
\<close>

datatype http_method = GET | POST

text \<open>The field \<open>req_method\<close> is the \<^verbatim>\<open>method\<close> of the axios request configuration.\<close>

record request =
  req_method :: http_method
  url :: string
  data :: "string option"
  headers :: "string \<rightharpoonup> string"

text \<open>
  The world outside the interceptor: the cookie jar (the persisted session state), the
  wall clock in seconds, the behaviour of the backend's refresh endpoint on a refresh
  token, the refresh tokens posted to that endpoint so far (one entry per call), and the
  lines written to the console.
\<close>

record world =
  cookies :: "string \<rightharpoonup> string"
  now :: int
  refresh_endpoint :: "string \<Rightarrow> js_error + TokenResponse"
  refresh_calls :: "string list"
  console :: "string list"

text \<open>
  The axios instance: the \<^verbatim>\<open>baseURL\<close> and default \<^verbatim>\<open>headers\<close> given to
  \<^verbatim>\<open>axios.create\<close>, and the two constants \<^verbatim>\<open>accessToken\<close> and
  \<^verbatim>\<open>refreshToken\<close> that the interceptor's closure captures. \<^verbatim>\<open>Cookies.get\<close>
  returns \<^verbatim>\<open>undefined\<close> for an absent cookie: \<open>None\<close>.
\<close>

record axiosInstance =
  baseURL :: string
  default_headers :: "string \<rightharpoonup> string"
  accessToken :: "string option"
  refreshToken :: "string option"

subsection \<open>JavaScript values\<close>

text \<open>
  Truthiness of a value that is a string or \<^verbatim>\<open>undefined\<close>: \<^verbatim>\<open>undefined\<close> and the
  empty string are falsy.
\<close>

fun truthy :: "string option \<Rightarrow> bool" where
  "truthy None = False"
| "truthy (Some s) = (s \<noteq> [])"

text \<open>The template literal \<^verbatim>\<open>`Bearer ${token}`\<close>.\<close>

definition Bearer :: "string \<Rightarrow> string" where
  "Bearer token = ''Bearer '' @ token"

text \<open>\<^verbatim>\<open>Cookies.get(name)\<close> on the cookie jar of the world.\<close>

definition Cookies_get :: "world \<Rightarrow> string \<Rightarrow> string option" where
  "Cookies_get w name = cookies w name"

definition console_log :: "string \<Rightarrow> world \<Rightarrow> world" where
  "console_log line w = w\<lparr>console := console w @ [line]\<rparr>"

subsection \<open>The helpers of the auth module\<close>

text \<open>
  Modelled from the spec: the module \<^verbatim>\<open>./auth\<close>, from which \<^verbatim>\<open>useAxios\<close> imports
  \<^verbatim>\<open>isAccessTokenExpired\<close>, is missing. The spec: decode the access token's expiry
  claim without network access; if the current time is before expiry the token is still
  valid; a token that cannot be decoded is treated as expired rather than raised. The
  decoder of the self-describing token format is a parameter, \<open>None\<close> where the token
  cannot be decoded.
\<close>

definition isAccessTokenExpired ::
  "(string \<Rightarrow> DecodedToken option) \<Rightarrow> string \<Rightarrow> world \<Rightarrow> bool" where
  "isAccessTokenExpired jwt_decode access_token w =
     (case jwt_decode access_token of
        None \<Rightarrow> True
      | Some decodedToken \<Rightarrow> \<not> (now w < exp decodedToken))"

text \<open>
  Modelled from the spec: \<^verbatim>\<open>getRefreshedToken\<close> of the missing module \<^verbatim>\<open>./auth\<close>.
  The spec: one renewal call to the backend's refresh endpoint, supplying the refresh
  token; the endpoint returns a new access/refresh pair or fails. The call is recorded
  in the trace whatever its outcome.
\<close>

definition getRefreshedToken ::
  "string \<Rightarrow> world \<Rightarrow> (js_error + TokenResponse) \<times> world" where
  "getRefreshedToken refresh_token w =
     (refresh_endpoint w refresh_token,
      w\<lparr>refresh_calls := refresh_calls w @ [refresh_token]\<rparr>)"

text \<open>
  Modelled from the spec: \<^verbatim>\<open>setAuthUser\<close> of the missing module \<^verbatim>\<open>./auth\<close>.
  The spec: persist the new access/refresh pair, two string values under fixed keys; the
  keys are the ones \<^verbatim>\<open>useAxios\<close> reads.
\<close>

definition setAuthUser :: "string \<Rightarrow> string \<Rightarrow> world \<Rightarrow> world" where
  "setAuthUser access_token refresh_token w =
     w\<lparr>cookies := (cookies w)(''access_token'' \<mapsto> access_token,
                               ''refresh_token'' \<mapsto> refresh_token)\<rparr>"

subsection \<open>useAxios\<close>

text \<open>
  The body of the \<^verbatim>\<open>try\<close> block: await the refreshed pair, persist it, overwrite the
  request's header. A throw leaves the block with the world as it is at that point.
\<close>

definition refresh_block ::
  "string \<Rightarrow> request \<Rightarrow> world \<Rightarrow> (js_error + request) \<times> world" where
  "refresh_block refresh_token req w =
     (case getRefreshedToken refresh_token w of
        (Inl error, w1) \<Rightarrow> (Inl error, w1)
      | (Inr response, w1) \<Rightarrow>
          (Inr (req\<lparr>headers := (headers req)(''Authorization'' \<mapsto> Bearer (access response))\<rparr>),
           setAuthUser (access response) (refresh response) w1))"

text \<open>
  The async function given to \<^verbatim>\<open>interceptors.request.use\<close>. Its promise is fulfilled
  with a request (\<open>Inr\<close>) or rejected (\<open>Inl\<close>).
\<close>

definition request_interceptor ::
  "(string \<Rightarrow> DecodedToken option) \<Rightarrow> axiosInstance \<Rightarrow> request \<Rightarrow> world
     \<Rightarrow> (js_error + request) \<times> world" where
  "request_interceptor jwt_decode inst req w =
     (if \<not> truthy (accessToken inst) \<or> \<not> truthy (refreshToken inst) then (Inr req, w)
      else case (accessToken inst, refreshToken inst) of
        (Some access_token, Some refresh_token) \<Rightarrow>
          if \<not> isAccessTokenExpired jwt_decode access_token w then (Inr req, w)
          else (case refresh_block refresh_token req w of
                  (Inr req', w') \<Rightarrow> (Inr req', w')
                | (Inl error, w') \<Rightarrow>
                    (Inr req,
                     console_log ''Token refresh failed, user needs to re-authenticate'' w'))
      | _ \<Rightarrow> (Inr req, w))"

text \<open>
  \<^verbatim>\<open>useAxios()\<close>: read the two cookies, create the instance with the bearer header
  as a default when the access token is truthy. \<^verbatim>\<open>API_BASE_URL\<close> comes from the
  configuration and is a parameter.
\<close>

definition useAxios :: "string \<Rightarrow> world \<Rightarrow> axiosInstance" where
  "useAxios API_BASE_URL w =
     (let accessToken = Cookies_get w ''access_token'';
          refreshToken = Cookies_get w ''refresh_token''
      in \<lparr>baseURL = API_BASE_URL,
          default_headers =
            (case accessToken of
               Some t \<Rightarrow> if truthy accessToken then [''Authorization'' \<mapsto> Bearer t] else Map.empty
             | None \<Rightarrow> Map.empty),
          accessToken = accessToken,
          refreshToken = refreshToken\<rparr>)"

text \<open>
  A call \<^verbatim>\<open>instance.get(url)\<close> or \<^verbatim>\<open>instance.post(url, data)\<close>: axios builds the
  request configuration with the instance's default headers and runs the request
  interceptor on it; what the interceptor returns is the outgoing request. The headers
  that axios adds by itself (\<^verbatim>\<open>Accept\<close>, \<^verbatim>\<open>Content-Type\<close>) are the same on every
  path and are left out of the header map.
\<close>

definition instance_request ::
  "(string \<Rightarrow> DecodedToken option) \<Rightarrow> axiosInstance \<Rightarrow> http_method \<Rightarrow> string
     \<Rightarrow> string option \<Rightarrow> world \<Rightarrow> (js_error + request) \<times> world" where
  "instance_request jwt_decode inst m u d w =
     request_interceptor jwt_decode inst
       \<lparr>req_method = m, url = u, data = d, headers = default_headers inst\<rparr> w"

subsection \<open>A sample session\<close>

text \<open>
  Concrete inputs for the examples below: a decoder that knows two access tokens, the
  first issued at second 0 and the second at second 600, each with a lifetime of five
  minutes; a backend that accepts the refresh token \<open>''refresh-1''\<close>, one that rejects
  every refresh token and one that cannot be reached; the cookie jar of a logged-in user;
  a world with an empty trace.
\<close>

definition sample_decode :: "string \<Rightarrow> DecodedToken option" where
  "sample_decode token =
     (if token = ''access-1'' then
        Some \<lparr>token_type = ''access'', exp = 300, iat = 0, jti = ''jti-1'', user_id = 7,
              full_name = ''Ada Student'', email = ''ada@example.org'', username = ''ada''\<rparr>
      else if token = ''access-2'' then
        Some \<lparr>token_type = ''access'', exp = 900, iat = 600, jti = ''jti-2'', user_id = 7,
              full_name = ''Ada Student'', email = ''ada@example.org'', username = ''ada''\<rparr>
      else None)"

definition accepting_backend :: "string \<Rightarrow> js_error + TokenResponse" where
  "accepting_backend refresh_token =
     (if refresh_token = ''refresh-1''
      then Inr \<lparr>access = ''access-2'', refresh = ''refresh-2''\<rparr>
      else Inl InvalidRefreshToken)"

definition rejecting_backend :: "string \<Rightarrow> js_error + TokenResponse" where
  "rejecting_backend refresh_token = Inl (HttpStatus 401)"


definition logged_in_jar :: "string \<rightharpoonup> string" where
  "logged_in_jar = [''access_token'' \<mapsto> ''access-1'', ''refresh_token'' \<mapsto> ''refresh-1'']"

definition sample_world ::
  "(string \<rightharpoonup> string) \<Rightarrow> int \<Rightarrow> (string \<Rightarrow> js_error + TokenResponse) \<Rightarrow> world" where
  "sample_world jar t backend =
     \<lparr>cookies = jar, now = t, refresh_endpoint = backend, refresh_calls = [], console = []\<rparr>"

section \<open>The branches of the interceptor\<close>

lemma interceptor_skip:
  "\<not> truthy (accessToken inst) \<or> \<not> truthy (refreshToken inst) \<Longrightarrow>
   request_interceptor jd inst req w = (Inr req, w)"
  by (simp add: request_interceptor_def)

lemma interceptor_valid:
  "accessToken inst = Some a \<Longrightarrow> \<not> isAccessTokenExpired jd a w \<Longrightarrow>
   request_interceptor jd inst req w = (Inr req, w)"
  by (simp add: request_interceptor_def split: option.splits)

lemma interceptor_refreshed:
  "accessToken inst = Some a \<Longrightarrow> a \<noteq> [] \<Longrightarrow> refreshToken inst = Some r \<Longrightarrow> r \<noteq> [] \<Longrightarrow>
   isAccessTokenExpired jd a w \<Longrightarrow> refresh_endpoint w r = Inr resp \<Longrightarrow>
   request_interceptor jd inst req w =
     (Inr (req\<lparr>headers := (headers req)(''Authorization'' \<mapsto> Bearer (access resp))\<rparr>),
      w\<lparr>refresh_calls := refresh_calls w @ [r],
        cookies := (cookies w)(''access_token'' \<mapsto> access resp,
                               ''refresh_token'' \<mapsto> refresh resp)\<rparr>)"
  by (simp add: request_interceptor_def refresh_block_def getRefreshedToken_def setAuthUser_def)

lemma interceptor_refresh_failed:
  "accessToken inst = Some a \<Longrightarrow> a \<noteq> [] \<Longrightarrow> refreshToken inst = Some r \<Longrightarrow> r \<noteq> [] \<Longrightarrow>
   isAccessTokenExpired jd a w \<Longrightarrow> refresh_endpoint w r = Inl e \<Longrightarrow>
   request_interceptor jd inst req w =
     (Inr req,
      w\<lparr>refresh_calls := refresh_calls w @ [r],
        console := console w @ [''Token refresh failed, user needs to re-authenticate'']\<rparr>)"
  by (simp add: request_interceptor_def refresh_block_def getRefreshedToken_def console_log_def)

lemma useAxios_accessToken: "accessToken (useAxios b w) = cookies w ''access_token''"
  by (simp add: useAxios_def Cookies_get_def Let_def)

lemma useAxios_refreshToken: "refreshToken (useAxios b w) = cookies w ''refresh_token''"
  by (simp add: useAxios_def Cookies_get_def Let_def)

lemma useAxios_headers_Some:
  "cookies w ''access_token'' = Some a \<Longrightarrow> a \<noteq> [] \<Longrightarrow>
   default_headers (useAxios b w) = [''Authorization'' \<mapsto> Bearer a]"
  by (simp add: useAxios_def Cookies_get_def Let_def)

lemma useAxios_headers_none:
  "\<not> truthy (cookies w ''access_token'') \<Longrightarrow> default_headers (useAxios b w) = Map.empty"
  by (cases "cookies w ''access_token''") (simp_all add: useAxios_def Cookies_get_def Let_def)

lemmas useAxios_simps = useAxios_accessToken useAxios_refreshToken

lemma expired_later:
  "isAccessTokenExpired jd a w \<Longrightarrow> now w \<le> now w' \<Longrightarrow> isAccessTokenExpired jd a w'"
  by (auto simp: isAccessTokenExpired_def split: option.splits)

lemma interceptor_attempt:
  assumes "accessToken inst = Some a" and "a \<noteq> []"
    and "refreshToken inst = Some r" and "r \<noteq> []"
    and "isAccessTokenExpired jd a w"
  shows "\<exists>req' w'. request_interceptor jd inst req w = (Inr req', w')
           \<and> refresh_calls w' = refresh_calls w @ [r]"
proof (cases "refresh_endpoint w r")
  case (Inl e)
  show ?thesis
    by (simp add: interceptor_refresh_failed [OF assms Inl])
next
  case (Inr resp)
  show ?thesis
    by (simp add: interceptor_refreshed [OF assms Inr])
qed

lemma interceptor_ignores_cookies:
  "fst (request_interceptor jd inst req (w\<lparr>cookies := jar\<rparr>)) =
     fst (request_interceptor jd inst req w)
   \<and> refresh_calls (snd (request_interceptor jd inst req (w\<lparr>cookies := jar\<rparr>))) =
     refresh_calls (snd (request_interceptor jd inst req w))"
  by (simp add: request_interceptor_def refresh_block_def getRefreshedToken_def
      setAuthUser_def console_log_def isAccessTokenExpired_def
      split: option.splits sum.splits)

section \<open>Properties of the pipeline\<close>

text \<open>
  Claim C1. A client is constructed while the cookies hold a truthy access token \<open>a\<close> and a
  truthy refresh token \<open>r\<close>. A request is intercepted in a world where \<open>a\<close> is expired
  and the backend accepts \<open>r\<close>, answering \<open>response\<close>. Then the trace of calls to the
  refresh endpoint grows by exactly one entry, the call that posts \<open>r\<close>; the cookie jar
  holds the new access and refresh token under the two keys; and the outgoing request's
  \<open>Authorization\<close> header is the bearer header of the new access token.
\<close>

theorem refresh_success:
  assumes "cookies w0 ''access_token'' = Some a" and "a \<noteq> []"
    and "cookies w0 ''refresh_token'' = Some r" and "r \<noteq> []"
    and "isAccessTokenExpired jwt_decode a w"
    and "refresh_endpoint w r = Inr response"
  shows "instance_request jwt_decode (useAxios base w0) m u body w =
           (Inr \<lparr>req_method = m, url = u, data = body,
                 headers = [''Authorization'' \<mapsto> Bearer (access response)]\<rparr>,
            w\<lparr>refresh_calls := refresh_calls w @ [r],
              cookies := (cookies w)(''access_token'' \<mapsto> access response,
                                     ''refresh_token'' \<mapsto> refresh response)\<rparr>)"
proof -
  let ?inst = "useAxios base w0"
  have acc: "accessToken ?inst = Some a" and ref: "refreshToken ?inst = Some r"
    using assms(1,3) by (simp_all add: useAxios_simps)
  have hd: "default_headers ?inst = [''Authorization'' \<mapsto> Bearer a]"
    using assms(1,2) by (rule useAxios_headers_Some)
  show ?thesis
    unfolding instance_request_def
    by (simp add: interceptor_refreshed [OF acc assms(2) ref assms(4) assms(5) assms(6)] hd)
qed

text \<open>
  The token issued at second 0 for five minutes, a request at second 600, a backend that
  accepts the refresh token.
\<close>

theorem refresh_success_witness:
  "cookies (sample_world logged_in_jar 0 accepting_backend) ''access_token'' = Some ''access-1''
   \<and> cookies (sample_world logged_in_jar 0 accepting_backend) ''refresh_token'' = Some ''refresh-1''
   \<and> isAccessTokenExpired sample_decode ''access-1'' (sample_world logged_in_jar 600 accepting_backend)
   \<and> refresh_endpoint (sample_world logged_in_jar 600 accepting_backend) ''refresh-1''
       = Inr \<lparr>access = ''access-2'', refresh = ''refresh-2''\<rparr>
   \<and> instance_request sample_decode (useAxios ''/api/v1/'' (sample_world logged_in_jar 0 accepting_backend))
       GET ''/course/course-list/'' None (sample_world logged_in_jar 600 accepting_backend) =
       (Inr \<lparr>req_method = GET, url = ''/course/course-list/'', data = None,
             headers = [''Authorization'' \<mapsto> ''Bearer access-2'']\<rparr>,
        \<lparr>cookies = [''access_token'' \<mapsto> ''access-2'', ''refresh_token'' \<mapsto> ''refresh-2''],
         now = 600, refresh_endpoint = accepting_backend,
         refresh_calls = [''refresh-1''], console = []\<rparr>)"
  using refresh_success [of "sample_world logged_in_jar 0 accepting_backend" "''access-1''" "''refresh-1''"
      sample_decode "sample_world logged_in_jar 600 accepting_backend"
      "\<lparr>access = ''access-2'', refresh = ''refresh-2''\<rparr>" "''/api/v1/''" GET "''/course/course-list/''" None]
  by (simp add: sample_world_def logged_in_jar_def accepting_backend_def sample_decode_def
      isAccessTokenExpired_def Bearer_def)

text \<open>
  Claim C2. As before, but the renewal call fails with some \<open>error\<close>. The request is
  still returned, its \<open>Authorization\<close> header is the bearer header of the stale token \<open>a\<close>,
  and the world differs from the one before only in the trace (the one failed call) and
  the console line: the cookie jar is the same.
\<close>

theorem refresh_failure:
  assumes "cookies w0 ''access_token'' = Some a" and "a \<noteq> []"
    and "cookies w0 ''refresh_token'' = Some r" and "r \<noteq> []"
    and "isAccessTokenExpired jwt_decode a w"
    and "refresh_endpoint w r = Inl error"
  shows "instance_request jwt_decode (useAxios base w0) m u body w =
           (Inr \<lparr>req_method = m, url = u, data = body,
                 headers = [''Authorization'' \<mapsto> Bearer a]\<rparr>,
            w\<lparr>refresh_calls := refresh_calls w @ [r],
              console := console w @
                [''Token refresh failed, user needs to re-authenticate'']\<rparr>)"
proof -
  let ?inst = "useAxios base w0"
  have acc: "accessToken ?inst = Some a" and ref: "refreshToken ?inst = Some r"
    using assms(1,3) by (simp_all add: useAxios_simps)
  have hd: "default_headers ?inst = [''Authorization'' \<mapsto> Bearer a]"
    using assms(1,2) by (rule useAxios_headers_Some)
  show ?thesis
    unfolding instance_request_def
    by (simp add: interceptor_refresh_failed [OF acc assms(2) ref assms(4) assms(5) assms(6)] hd)
qed

text \<open>A request one second after expiry, against a backend that answers 401.\<close>

theorem refresh_failure_witness:
  "cookies (sample_world logged_in_jar 0 rejecting_backend) ''access_token'' = Some ''access-1''
   \<and> cookies (sample_world logged_in_jar 0 rejecting_backend) ''refresh_token'' = Some ''refresh-1''
   \<and> isAccessTokenExpired sample_decode ''access-1'' (sample_world logged_in_jar 301 rejecting_backend)
   \<and> refresh_endpoint (sample_world logged_in_jar 301 rejecting_backend) ''refresh-1''
       = Inl (HttpStatus 401)
   \<and> instance_request sample_decode (useAxios ''/api/v1/'' (sample_world logged_in_jar 0 rejecting_backend))
       POST ''course/cart/'' (Some ''course_id=3'') (sample_world logged_in_jar 301 rejecting_backend) =
       (Inr \<lparr>req_method = POST, url = ''course/cart/'', data = Some ''course_id=3'',
             headers = [''Authorization'' \<mapsto> ''Bearer access-1'']\<rparr>,
        \<lparr>cookies = logged_in_jar, now = 301, refresh_endpoint = rejecting_backend,
         refresh_calls = [''refresh-1''],
         console = [''Token refresh failed, user needs to re-authenticate'']\<rparr>)"
  using refresh_failure [of "sample_world logged_in_jar 0 rejecting_backend" "''access-1''" "''refresh-1''"
      sample_decode "sample_world logged_in_jar 301 rejecting_backend"
      "HttpStatus 401" "''/api/v1/''" POST "''course/cart/''" "Some ''course_id=3''"]
  by (simp add: sample_world_def logged_in_jar_def rejecting_backend_def sample_decode_def
      isAccessTokenExpired_def Bearer_def)

text \<open>
  Claim C3. The client was constructed while the cookies held a truthy access token \<open>a\<close>;
  the request is intercepted at a time before the expiry claim that \<open>a\<close> decodes to. Then
  the outgoing request carries the bearer header of \<open>a\<close>, and the world is unchanged: no
  call to the refresh endpoint is made, whatever the refresh token cookie is.
\<close>

theorem valid_token_passthrough:
  assumes "cookies w0 ''access_token'' = Some a" and "a \<noteq> []"
    and "jwt_decode a = Some decodedToken" and "now w < exp decodedToken"
  shows "instance_request jwt_decode (useAxios base w0) m u body w =
           (Inr \<lparr>req_method = m, url = u, data = body,
                 headers = [''Authorization'' \<mapsto> Bearer a]\<rparr>, w)"
proof -
  let ?inst = "useAxios base w0"
  have acc: "accessToken ?inst = Some a"
    using assms(1) by (simp add: useAxios_simps)
  have hd: "default_headers ?inst = [''Authorization'' \<mapsto> Bearer a]"
    using assms(1,2) by (rule useAxios_headers_Some)
  have valid: "\<not> isAccessTokenExpired jwt_decode a w"
    using assms(3,4) by (simp add: isAccessTokenExpired_def)
  show ?thesis
    unfolding instance_request_def
    by (simp add: interceptor_valid [OF acc valid] hd)
qed

text \<open>The token issued at second 0 for five minutes, a request at second 60.\<close>

theorem valid_token_passthrough_witness:
  "cookies (sample_world logged_in_jar 0 accepting_backend) ''access_token'' = Some ''access-1''
   \<and> sample_decode ''access-1'' =
       Some \<lparr>token_type = ''access'', exp = 300, iat = 0, jti = ''jti-1'', user_id = 7,
             full_name = ''Ada Student'', email = ''ada@example.org'', username = ''ada''\<rparr>
   \<and> now (sample_world logged_in_jar 60 accepting_backend) < 300
   \<and> instance_request sample_decode (useAxios ''/api/v1/'' (sample_world logged_in_jar 0 accepting_backend))
       GET ''/course/course-list/'' None (sample_world logged_in_jar 60 accepting_backend) =
       (Inr \<lparr>req_method = GET, url = ''/course/course-list/'', data = None,
             headers = [''Authorization'' \<mapsto> ''Bearer access-1'']\<rparr>,
        \<lparr>cookies = logged_in_jar, now = 60, refresh_endpoint = accepting_backend,
         refresh_calls = [], console = []\<rparr>)"
  using valid_token_passthrough [of "sample_world logged_in_jar 0 accepting_backend" "''access-1''"
      sample_decode
      "\<lparr>token_type = ''access'', exp = 300, iat = 0, jti = ''jti-1'', user_id = 7,
        full_name = ''Ada Student'', email = ''ada@example.org'', username = ''ada''\<rparr>"
      "sample_world logged_in_jar 60 accepting_backend"
      "''/api/v1/''" GET "''/course/course-list/''" None]
  by (simp add: sample_world_def logged_in_jar_def sample_decode_def Bearer_def)

text \<open>
  Claim C4. The client was constructed with neither token stored (absent or empty
  cookies). Then the pipeline adds nothing to the outgoing request: its header map is
  empty, so it has no \<open>Authorization\<close> header, and the world is unchanged: no call to
  the refresh endpoint.
\<close>

theorem anonymous_passthrough:
  assumes "\<not> truthy (cookies w0 ''access_token'')"
    and "\<not> truthy (cookies w0 ''refresh_token'')"
  shows "instance_request jwt_decode (useAxios base w0) m u body w =
           (Inr \<lparr>req_method = m, url = u, data = body, headers = Map.empty\<rparr>, w)"
proof -
  have "\<not> truthy (accessToken (useAxios base w0))"
    using assms(1) by (simp add: useAxios_simps)
  then show ?thesis
    unfolding instance_request_def
    by (simp add: interceptor_skip useAxios_headers_none [OF assms(1)])
qed

text \<open>A visitor with an empty cookie jar.\<close>

theorem anonymous_passthrough_witness:
  "\<not> truthy (cookies (sample_world Map.empty 0 accepting_backend) ''access_token'')
   \<and> \<not> truthy (cookies (sample_world Map.empty 0 accepting_backend) ''refresh_token'')
   \<and> instance_request sample_decode (useAxios ''/api/v1/'' (sample_world Map.empty 0 accepting_backend))
       GET ''/course/course-list/'' None (sample_world Map.empty 5 accepting_backend) =
       (Inr \<lparr>req_method = GET, url = ''/course/course-list/'', data = None, headers = Map.empty\<rparr>,
        \<lparr>cookies = Map.empty, now = 5, refresh_endpoint = accepting_backend,
         refresh_calls = [], console = []\<rparr>)
   \<and> headers \<lparr>req_method = GET, url = ''/course/course-list/'', data = None,
               headers = Map.empty\<rparr> ''Authorization'' = None"
  using anonymous_passthrough [of "sample_world Map.empty 0 accepting_backend"
      sample_decode "''/api/v1/''" GET "''/course/course-list/''" None
      "sample_world Map.empty 5 accepting_backend"]
  by (simp add: sample_world_def)



text \<open>
  Claim C6 as stated fails. The stored access token expired at second 300, the request is
  sent at second 600 and the backend answers the renewal call with 401: the outgoing
  request carries the expired token, which is neither currently valid nor replaced (the
  cookie jar still holds the old pair).
\<close>

theorem stale_token_counterexample:
  "isAccessTokenExpired sample_decode ''access-1'' (sample_world logged_in_jar 600 rejecting_backend)
   \<and> rejecting_backend ''refresh-1'' = Inl (HttpStatus 401)
   \<and> instance_request sample_decode
        (useAxios ''/api/v1/'' (sample_world logged_in_jar 600 rejecting_backend))
        GET ''/student/course-list/7/'' None (sample_world logged_in_jar 600 rejecting_backend) =
       (Inr \<lparr>req_method = GET, url = ''/student/course-list/7/'', data = None,
             headers = [''Authorization'' \<mapsto> ''Bearer access-1'']\<rparr>,
        \<lparr>cookies = logged_in_jar, now = 600, refresh_endpoint = rejecting_backend,
         refresh_calls = [''refresh-1''],
         console = [''Token refresh failed, user needs to re-authenticate'']\<rparr>)"
  by (simp add: instance_request_def request_interceptor_def refresh_block_def
      getRefreshedToken_def console_log_def useAxios_def Cookies_get_def Let_def
      isAccessTokenExpired_def sample_world_def logged_in_jar_def rejecting_backend_def
      sample_decode_def Bearer_def)

text \<open>
  Claim C6, amended. Every request leaves the pipeline, and its \<open>Authorization\<close> header is
  one of: absent, when no access token was stored; the stored access token, currently
  valid; a freshly renewed access token that the backend has just returned and that has
  just been persisted; or the stale stored access token with the persisted state
  unchanged, which happens only when no refresh token was stored or the renewal call
  failed.
\<close>

theorem outgoing_token_cases:
  "\<exists>req' w'. instance_request jwt_decode (useAxios base w0) m u body w = (Inr req', w') \<and>
     ((headers req' ''Authorization'' = None \<and> \<not> truthy (cookies w0 ''access_token''))
      \<or> (\<exists>a. headers req' ''Authorization'' = Some (Bearer a)
            \<and> cookies w0 ''access_token'' = Some a
            \<and> \<not> isAccessTokenExpired jwt_decode a w)
      \<or> (\<exists>r response. headers req' ''Authorization'' = Some (Bearer (access response))
            \<and> cookies w0 ''refresh_token'' = Some r
            \<and> refresh_endpoint w r = Inr response
            \<and> cookies w' ''access_token'' = Some (access response))
      \<or> (\<exists>a. headers req' ''Authorization'' = Some (Bearer a)
            \<and> cookies w0 ''access_token'' = Some a
            \<and> isAccessTokenExpired jwt_decode a w
            \<and> cookies w' = cookies w
            \<and> (\<not> truthy (cookies w0 ''refresh_token'')
                \<or> (\<exists>r error. cookies w0 ''refresh_token'' = Some r
                      \<and> refresh_endpoint w r = Inl error))))"
proof (cases "truthy (cookies w0 ''access_token'')")
  case False
  then have "instance_request jwt_decode (useAxios base w0) m u body w =
      (Inr \<lparr>req_method = m, url = u, data = body, headers = Map.empty\<rparr>, w)"
    unfolding instance_request_def
    by (simp add: interceptor_skip useAxios_simps useAxios_headers_none)
  with False show ?thesis by simp
next
  case True
  then obtain a where a: "cookies w0 ''access_token'' = Some a" "a \<noteq> []"
    by (cases "cookies w0 ''access_token''") auto
  let ?inst = "useAxios base w0"
  let ?req = "\<lparr>req_method = m, url = u, data = body,
                headers = [''Authorization'' \<mapsto> Bearer a]\<rparr>"
  have acc: "accessToken ?inst = Some a"
    using a(1) by (simp add: useAxios_simps)
  have hd: "default_headers ?inst = [''Authorization'' \<mapsto> Bearer a]"
    using a by (rule useAxios_headers_Some)
  show ?thesis
  proof (cases "isAccessTokenExpired jwt_decode a w")
    case False
    have "instance_request jwt_decode ?inst m u body w = (Inr ?req, w)"
      unfolding instance_request_def by (simp add: interceptor_valid [OF acc False] hd)
    with a False show ?thesis by simp
  next
    case expired: True
    show ?thesis
    proof (cases "truthy (cookies w0 ''refresh_token'')")
      case False
      then have "instance_request jwt_decode ?inst m u body w = (Inr ?req, w)"
        unfolding instance_request_def by (simp add: interceptor_skip useAxios_simps hd)
      with a expired False show ?thesis by simp
    next
      case True
      then obtain r where r: "cookies w0 ''refresh_token'' = Some r" "r \<noteq> []"
        by (cases "cookies w0 ''refresh_token''") auto
      have ref: "refreshToken ?inst = Some r"
        using r(1) by (simp add: useAxios_simps)
      show ?thesis
      proof (cases "refresh_endpoint w r")
        case (Inl error)
        have "instance_request jwt_decode ?inst m u body w =
            (Inr ?req, w\<lparr>refresh_calls := refresh_calls w @ [r],
               console := console w @
                 [''Token refresh failed, user needs to re-authenticate'']\<rparr>)"
          unfolding instance_request_def
          by (simp add: interceptor_refresh_failed [OF acc a(2) ref r(2) expired Inl] hd)
        with a r expired Inl show ?thesis by simp
      next
        case (Inr response)
        have "instance_request jwt_decode ?inst m u body w =
            (Inr (?req\<lparr>headers := [''Authorization'' \<mapsto> Bearer (access response)]\<rparr>),
             w\<lparr>refresh_calls := refresh_calls w @ [r],
               cookies := (cookies w)(''access_token'' \<mapsto> access response,
                                      ''refresh_token'' \<mapsto> refresh response)\<rparr>)"
          unfolding instance_request_def
          by (simp add: interceptor_refreshed [OF acc a(2) ref r(2) expired Inr] hd)
        with a r expired Inr show ?thesis by simp
      qed
    qed
  qed
qed

text \<open>The last case, at the input of the counterexample.\<close>

theorem outgoing_token_cases_witness:
  "\<exists>req' w'. instance_request sample_decode
        (useAxios ''/api/v1/'' (sample_world logged_in_jar 600 rejecting_backend))
        GET ''/student/course-list/7/'' None (sample_world logged_in_jar 600 rejecting_backend)
        = (Inr req', w')
     \<and> headers req' ''Authorization'' = Some ''Bearer access-1''
     \<and> isAccessTokenExpired sample_decode ''access-1''
          (sample_world logged_in_jar 600 rejecting_backend)
     \<and> cookies w' = cookies (sample_world logged_in_jar 600 rejecting_backend)
     \<and> refresh_endpoint (sample_world logged_in_jar 600 rejecting_backend) ''refresh-1''
          = Inl (HttpStatus 401)"
  using outgoing_token_cases [of sample_decode "''/api/v1/''"
      "sample_world logged_in_jar 600 rejecting_backend" GET "''/student/course-list/7/''" None
      "sample_world logged_in_jar 600 rejecting_backend"]
  by (auto simp: sample_world_def logged_in_jar_def rejecting_backend_def sample_decode_def
      isAccessTokenExpired_def Bearer_def)

text \<open>
  Claim C7 as stated fails. The stored access token cannot be decoded and no refresh token
  is stored: the guard on the two tokens returns the request before any renewal attempt,
  and the trace of calls to the refresh endpoint stays empty.
\<close>

theorem malformed_without_refresh_counterexample:
  "sample_decode ''not-a-token'' = None
   \<and> isAccessTokenExpired sample_decode ''not-a-token''
        (sample_world [''access_token'' \<mapsto> ''not-a-token''] 600 accepting_backend)
   \<and> instance_request sample_decode
        (useAxios ''/api/v1/''
           (sample_world [''access_token'' \<mapsto> ''not-a-token''] 600 accepting_backend))
        GET ''/course/course-list/'' None
        (sample_world [''access_token'' \<mapsto> ''not-a-token''] 600 accepting_backend) =
       (Inr \<lparr>req_method = GET, url = ''/course/course-list/'', data = None,
             headers = [''Authorization'' \<mapsto> ''Bearer not-a-token'']\<rparr>,
        \<lparr>cookies = [''access_token'' \<mapsto> ''not-a-token''], now = 600,
         refresh_endpoint = accepting_backend, refresh_calls = [], console = []\<rparr>)"
  by (simp add: instance_request_def request_interceptor_def useAxios_def Cookies_get_def
      Let_def isAccessTokenExpired_def sample_world_def sample_decode_def Bearer_def)

text \<open>
  Claim C7, amended. When the stored access token cannot be decoded and a refresh token is
  stored, the expiry check answers "expired" instead of raising, the request is returned
  after exactly one renewal attempt with the stored refresh token, and the pipeline does
  exactly what it would do if the token decoded to an expiry instant that has passed.
\<close>

theorem malformed_token_treated_as_expired:
  assumes "jwt_decode a = None"
    and "cookies w0 ''access_token'' = Some a" and "a \<noteq> []"
    and "cookies w0 ''refresh_token'' = Some r" and "r \<noteq> []"
  shows "isAccessTokenExpired jwt_decode a w
    \<and> (\<exists>req' w'. instance_request jwt_decode (useAxios base w0) m u body w = (Inr req', w')
          \<and> refresh_calls w' = refresh_calls w @ [r])
    \<and> (\<forall>decodedToken. exp decodedToken \<le> now w \<longrightarrow>
          instance_request (jwt_decode(a \<mapsto> decodedToken)) (useAxios base w0) m u body w =
          instance_request jwt_decode (useAxios base w0) m u body w)"
proof -
  let ?inst = "useAxios base w0"
  have acc: "accessToken ?inst = Some a" and ref: "refreshToken ?inst = Some r"
    using assms(2,4) by (simp_all add: useAxios_simps)
  have expired: "isAccessTokenExpired jwt_decode a w"
    using assms(1) by (simp add: isAccessTokenExpired_def)
  have attempt: "\<exists>req' w'. instance_request jwt_decode ?inst m u body w = (Inr req', w')
      \<and> refresh_calls w' = refresh_calls w @ [r]"
    unfolding instance_request_def
    by (rule interceptor_attempt [OF acc assms(3) ref assms(5) expired])
  have same: "instance_request (jwt_decode(a \<mapsto> decodedToken)) ?inst m u body w =
      instance_request jwt_decode ?inst m u body w"
    if "exp decodedToken \<le> now w" for decodedToken
  proof -
    have "isAccessTokenExpired (jwt_decode(a \<mapsto> decodedToken)) a w =
        isAccessTokenExpired jwt_decode a w"
      using that assms(1) by (simp add: isAccessTokenExpired_def)
    then show ?thesis
      by (simp add: instance_request_def request_interceptor_def acc ref)
  qed
  from expired attempt same show ?thesis by blast
qed

text \<open>An access token cookie that is not a token, with a refresh token beside it.\<close>

theorem malformed_token_treated_as_expired_witness:
  "sample_decode ''not-a-token'' = None
   \<and> cookies (sample_world [''access_token'' \<mapsto> ''not-a-token'', ''refresh_token'' \<mapsto> ''refresh-1'']
        0 accepting_backend) ''access_token'' = Some ''not-a-token''
   \<and> cookies (sample_world [''access_token'' \<mapsto> ''not-a-token'', ''refresh_token'' \<mapsto> ''refresh-1'']
        0 accepting_backend) ''refresh_token'' = Some ''refresh-1''
   \<and> isAccessTokenExpired sample_decode ''not-a-token''
        (sample_world [''access_token'' \<mapsto> ''not-a-token'', ''refresh_token'' \<mapsto> ''refresh-1'']
           10 accepting_backend)
   \<and> (\<exists>req' w'. instance_request sample_decode
          (useAxios ''/api/v1/''
             (sample_world [''access_token'' \<mapsto> ''not-a-token'', ''refresh_token'' \<mapsto> ''refresh-1'']
                0 accepting_backend))
          GET ''/course/course-list/'' None
          (sample_world [''access_token'' \<mapsto> ''not-a-token'', ''refresh_token'' \<mapsto> ''refresh-1'']
             10 accepting_backend) = (Inr req', w')
        \<and> refresh_calls w' = [''refresh-1''])"
  using malformed_token_treated_as_expired [of sample_decode "''not-a-token''"
      "sample_world [''access_token'' \<mapsto> ''not-a-token'', ''refresh_token'' \<mapsto> ''refresh-1'']
         0 accepting_backend"
      "''refresh-1''"
      "sample_world [''access_token'' \<mapsto> ''not-a-token'', ''refresh_token'' \<mapsto> ''refresh-1'']
         10 accepting_backend"
      "''/api/v1/''" GET "''/course/course-list/''" None]
  by (simp add: sample_world_def sample_decode_def)

text \<open>
  Claim C9. The client was constructed while the cookies held a truthy access token \<open>a\<close>
  and no (or an empty) refresh token. Then, whether \<open>a\<close> is expired or not, the outgoing
  request carries the bearer header of \<open>a\<close> and the world is unchanged: no renewal attempt.
\<close>

theorem no_refresh_token_passthrough:
  assumes "cookies w0 ''access_token'' = Some a" and "a \<noteq> []"
    and "\<not> truthy (cookies w0 ''refresh_token'')"
  shows "instance_request jwt_decode (useAxios base w0) m u body w =
           (Inr \<lparr>req_method = m, url = u, data = body,
                 headers = [''Authorization'' \<mapsto> Bearer a]\<rparr>, w)"
proof -
  have "\<not> truthy (refreshToken (useAxios base w0))"
    using assms(3) by (simp add: useAxios_simps)
  then show ?thesis
    unfolding instance_request_def
    by (simp add: interceptor_skip useAxios_headers_Some [OF assms(1,2)])
qed

text \<open>An expired access token without a refresh token.\<close>

theorem no_refresh_token_passthrough_witness:
  "cookies (sample_world [''access_token'' \<mapsto> ''access-1''] 0 accepting_backend) ''access_token''
     = Some ''access-1''
   \<and> \<not> truthy (cookies (sample_world [''access_token'' \<mapsto> ''access-1''] 0 accepting_backend)
        ''refresh_token'')
   \<and> isAccessTokenExpired sample_decode ''access-1''
        (sample_world [''access_token'' \<mapsto> ''access-1''] 600 accepting_backend)
   \<and> instance_request sample_decode
        (useAxios ''/api/v1/'' (sample_world [''access_token'' \<mapsto> ''access-1''] 0 accepting_backend))
        GET ''/course/course-list/'' None
        (sample_world [''access_token'' \<mapsto> ''access-1''] 600 accepting_backend) =
       (Inr \<lparr>req_method = GET, url = ''/course/course-list/'', data = None,
             headers = [''Authorization'' \<mapsto> ''Bearer access-1'']\<rparr>,
        \<lparr>cookies = [''access_token'' \<mapsto> ''access-1''], now = 600,
         refresh_endpoint = accepting_backend, refresh_calls = [], console = []\<rparr>)"
  using no_refresh_token_passthrough [of
      "sample_world [''access_token'' \<mapsto> ''access-1''] 0 accepting_backend" "''access-1''"
      sample_decode "''/api/v1/''" GET "''/course/course-list/''" None
      "sample_world [''access_token'' \<mapsto> ''access-1''] 600 accepting_backend"]
  by (simp add: sample_world_def sample_decode_def isAccessTokenExpired_def Bearer_def)

text \<open>
  Claim C10. The instance holds the tokens read from the cookies of the world \<open>w0\<close> in which
  it was constructed. Suppose a request through it in \<open>w1\<close> found the captured access token
  expired and refreshed successfully, so that the cookies now hold the new pair. Then for
  every later world \<open>w2\<close> (the clock has not gone back), a request through the same
  instance makes one more renewal call, again with the old captured refresh token; and
  what the interceptor returns and which calls it makes do not depend on the cookie jar
  at request time.
\<close>

theorem captured_tokens_decide:
  assumes "cookies w0 ''access_token'' = Some a" and "a \<noteq> []"
    and "cookies w0 ''refresh_token'' = Some r" and "r \<noteq> []"
    and "isAccessTokenExpired jwt_decode a w1"
    and "refresh_endpoint w1 r = Inr response"
    and "instance_request jwt_decode (useAxios base w0) m u body w1 = (result, w1')"
    and "now w1 \<le> now w2"
  shows "cookies w1' ''access_token'' = Some (access response)
    \<and> cookies w1' ''refresh_token'' = Some (refresh response)
    \<and> (\<exists>req'' w2'. instance_request jwt_decode (useAxios base w0) m' u' body' w2 = (Inr req'', w2')
          \<and> refresh_calls w2' = refresh_calls w2 @ [r])
    \<and> (\<forall>jar.
          fst (instance_request jwt_decode (useAxios base w0) m' u' body' (w2\<lparr>cookies := jar\<rparr>)) =
          fst (instance_request jwt_decode (useAxios base w0) m' u' body' w2)
        \<and> refresh_calls
            (snd (instance_request jwt_decode (useAxios base w0) m' u' body' (w2\<lparr>cookies := jar\<rparr>))) =
          refresh_calls (snd (instance_request jwt_decode (useAxios base w0) m' u' body' w2)))"
proof -
  let ?inst = "useAxios base w0"
  have acc: "accessToken ?inst = Some a" and ref: "refreshToken ?inst = Some r"
    using assms(1,3) by (simp_all add: useAxios_simps)
  have "w1' = w1\<lparr>refresh_calls := refresh_calls w1 @ [r],
      cookies := (cookies w1)(''access_token'' \<mapsto> access response,
                              ''refresh_token'' \<mapsto> refresh response)\<rparr>"
    using assms(7) unfolding instance_request_def
    by (simp add: interceptor_refreshed [OF acc assms(2) ref assms(4) assms(5) assms(6)])
  then have stored: "cookies w1' ''access_token'' = Some (access response)"
      "cookies w1' ''refresh_token'' = Some (refresh response)"
    by simp_all
  have still: "isAccessTokenExpired jwt_decode a w2"
    using assms(5,8) by (rule expired_later)
  have again: "\<exists>req'' w2'. instance_request jwt_decode ?inst m' u' body' w2 = (Inr req'', w2')
      \<and> refresh_calls w2' = refresh_calls w2 @ [r]"
    unfolding instance_request_def
    by (rule interceptor_attempt [OF acc assms(2) ref assms(4) still])
  have indep: "fst (instance_request jwt_decode ?inst m' u' body' (w2\<lparr>cookies := jar\<rparr>)) =
        fst (instance_request jwt_decode ?inst m' u' body' w2)
      \<and> refresh_calls (snd (instance_request jwt_decode ?inst m' u' body' (w2\<lparr>cookies := jar\<rparr>))) =
        refresh_calls (snd (instance_request jwt_decode ?inst m' u' body' w2))" for jar
    unfolding instance_request_def by (rule interceptor_ignores_cookies)
  from stored again indep show ?thesis by blast
qed

text \<open>
  After the refresh at second 600 the cookies hold a token valid until second 900; at
  second 660 the same instance posts the old refresh token again.
\<close>

theorem captured_tokens_decide_witness:
  "isAccessTokenExpired sample_decode ''access-1'' (sample_world logged_in_jar 600 accepting_backend)
   \<and> instance_request sample_decode
        (useAxios ''/api/v1/'' (sample_world logged_in_jar 0 accepting_backend))
        GET ''/course/course-list/'' None (sample_world logged_in_jar 600 accepting_backend) =
       (Inr \<lparr>req_method = GET, url = ''/course/course-list/'', data = None,
             headers = [''Authorization'' \<mapsto> ''Bearer access-2'']\<rparr>,
        \<lparr>cookies = [''access_token'' \<mapsto> ''access-2'', ''refresh_token'' \<mapsto> ''refresh-2''],
         now = 600, refresh_endpoint = accepting_backend,
         refresh_calls = [''refresh-1''], console = []\<rparr>)
   \<and> \<not> isAccessTokenExpired sample_decode ''access-2''
        \<lparr>cookies = [''access_token'' \<mapsto> ''access-2'', ''refresh_token'' \<mapsto> ''refresh-2''],
         now = 660, refresh_endpoint = accepting_backend,
         refresh_calls = [''refresh-1''], console = []\<rparr>
   \<and> (\<exists>req'' w2'. instance_request sample_decode
          (useAxios ''/api/v1/'' (sample_world logged_in_jar 0 accepting_backend))
          POST ''course/cart/'' (Some ''course_id=3'')
          \<lparr>cookies = [''access_token'' \<mapsto> ''access-2'', ''refresh_token'' \<mapsto> ''refresh-2''],
           now = 660, refresh_endpoint = accepting_backend,
           refresh_calls = [''refresh-1''], console = []\<rparr> = (Inr req'', w2')
        \<and> refresh_calls w2' = [''refresh-1'', ''refresh-1''])"
  using captured_tokens_decide [of "sample_world logged_in_jar 0 accepting_backend"
      "''access-1''" "''refresh-1''" sample_decode
      "sample_world logged_in_jar 600 accepting_backend"
      "\<lparr>access = ''access-2'', refresh = ''refresh-2''\<rparr>"
      "''/api/v1/''" GET "''/course/course-list/''" None
      "Inr \<lparr>req_method = GET, url = ''/course/course-list/'', data = None,
             headers = [''Authorization'' \<mapsto> ''Bearer access-2'']\<rparr>"
      "\<lparr>cookies = [''access_token'' \<mapsto> ''access-2'', ''refresh_token'' \<mapsto> ''refresh-2''],
         now = 600, refresh_endpoint = accepting_backend,
         refresh_calls = [''refresh-1''], console = []\<rparr>"
      "\<lparr>cookies = [''access_token'' \<mapsto> ''access-2'', ''refresh_token'' \<mapsto> ''refresh-2''],
         now = 660, refresh_endpoint = accepting_backend,
         refresh_calls = [''refresh-1''], console = []\<rparr>"
      POST "''course/cart/''" "Some ''course_id=3''"]
  by (simp add: instance_request_def request_interceptor_def refresh_block_def
      getRefreshedToken_def setAuthUser_def useAxios_def Cookies_get_def Let_def
      sample_world_def logged_in_jar_def accepting_backend_def sample_decode_def
      isAccessTokenExpired_def Bearer_def)

end
